theory Spec2Isabelle
  imports Complex_Main
begin

section \<open>Data model\<close>

text \<open>
  The web shop of \<^verbatim>\<open>app.py\<close> and \<^verbatim>\<open>admin_route.py\<close>: a Flask session holding the
  logged-in user and the cart, an SQLite file with four tables, and the hosted payment
  page of the provider.

  Conventions of the embedding.
  \<^item> A handler is a function from the state before the request to either an exception
    that leaves the handler (\<open>Inl\<close>) or the response with the state after (\<open>Inr\<close>).
    What the framework does with the session after an uncaught exception is not modelled.
  \<^item> The session is Flask's default one, a signed cookie held by the client. A handler
    takes the session the request presents and leaves the session the response sets;
    passing the state from one request to the next is a client that always presents the
    cookie it received last, and \<open>with_cookie\<close> is a request that presents another cookie
    the server has issued.
  \<^item> Prices and totals are Python floats, that is IEEE doubles. A finite double is modelled
    by its exact rational value, and every float product and sum is rounded to the nearest
    double by \<open>fl\<close>; a rational of magnitude \<^verbatim>\<open>2^1024\<close> or more stands for an infinity.
    NaN is not a value of the model: it does not arise from products and sums of prices
    that are not negative (the route accepts no sign) and quantities of at least 1.
  \<^item> Quantities, stock counts and row ids are unbounded integers; the 64-bit limit of
    SQLite's INTEGER is not modelled.
  \<^item> Strings are lists of characters with code points below 256.
\<close>

datatype error = KeyError | BadRequestKeyError | IntegrityError | StripeError | OverflowError

text \<open>A cart entry is a dict with the keys \<^verbatim>\<open>name\<close>, \<^verbatim>\<open>price\<close> and \<^verbatim>\<open>quantity\<close>;
  \<^verbatim>\<open>add_to_cart\<close> allows for entries without \<^verbatim>\<open>quantity\<close>, so that key is optional.\<close>

record cart_item =
  item_name :: string
  item_price :: rat
  item_quantity :: "int option"

text \<open>The session: the key \<^verbatim>\<open>user\<close>, the key \<^verbatim>\<open>cart\<close> (either may be absent) and the
  flashed messages, as pairs of category and message. Templates are outside the source,
  so the model only ever appends to the flashed messages.\<close>

record session =
  sess_user :: "string option"
  sess_cart :: "cart_item list option"
  sess_flashes :: "(string \<times> string) list"

record user_row =
  u_id :: int
  u_email :: string
  u_password :: string
  u_role :: "string option"

record product_row =
  p_id :: int
  p_name :: string
  p_description :: "string option"
  p_price :: rat
  p_stock :: int
  p_image_url :: "string option"
  p_category :: "string option"

record order_row =
  o_id :: int
  o_user_email :: string
  o_total :: rat
  o_created_at :: string

record order_item_row =
  oi_id :: int
  oi_order_id :: int
  oi_product_id :: "int option"
  oi_product_name :: string
  oi_unit_price :: rat
  oi_quantity :: int

text \<open>The four tables, each a list of rows in scan order, and for the three tables the
  source inserts into the largest row id ever used (SQLite's \<^verbatim>\<open>sqlite_sequence\<close> of an
  AUTOINCREMENT key).\<close>

record database =
  users :: "user_row list"
  products :: "product_row list"
  orders :: "order_row list"
  order_items :: "order_item_row list"
  seq_users :: int
  seq_orders :: int
  seq_order_items :: int

text \<open>What \<^verbatim>\<open>stripe.checkout.Session.create\<close> is called with.\<close>

datatype location = UrlFor string | UrlForExternal string | Url string

record line_item =
  li_currency :: string
  li_name :: string
  li_unit_amount :: int
  li_quantity :: int

record create_params =
  payment_method_types :: "string list"
  line_items :: "line_item list"
  mode :: string
  success_url :: location
  cancel_url :: location
  customer_email :: "string option"

text \<open>The state a request runs in: the session, the database, and the payment sessions
  requested from the provider so far.\<close>

record state =
  sess :: session
  db :: database
  stripe_sessions :: "create_params list"

datatype template_arg =
  CartItems "cart_item list"
  | Total rat
  | Users "(int \<times> string \<times> string option) list"

datatype response = Redirect location nat | Render string "template_arg list"

type_synonym handler = "state \<Rightarrow> error + response \<times> state"

section \<open>Session helpers and the login gate\<close>

definition flash :: "string \<Rightarrow> string \<Rightarrow> state \<Rightarrow> state" where
  "flash message category st =
     st\<lparr>sess := (sess st)\<lparr>sess_flashes := sess_flashes (sess st) @ [(category, message)]\<rparr>\<rparr>"

text \<open>\<^verbatim>\<open>session.get("cart", [])\<close>\<close>

definition get_cart :: "state \<Rightarrow> cart_item list" where
  "get_cart st = (case sess_cart (sess st) of None \<Rightarrow> [] | Some c \<Rightarrow> c)"

definition set_cart :: "cart_item list option \<Rightarrow> state \<Rightarrow> state" where
  "set_cart c st = st\<lparr>sess := (sess st)\<lparr>sess_cart := c\<rparr>\<rparr>"

definition login_required :: "handler \<Rightarrow> handler" where
  "login_required f st =
     (if sess_user (sess st) = None
      then Inr (Redirect (UrlFor ''login'') 302,
                flash ''Please log in to access this page.'' ''warning'' st)
      else f st)"


section \<open>Python floats\<close>

text \<open>\<^verbatim>\<open>int.bit_length\<close>: the number of binary digits of a positive integer.\<close>

function bit_length :: "int \<Rightarrow> int" where
  "bit_length n = (if n \<le> 0 then 0 else 1 + bit_length (n div 2))"
  by pat_completeness auto
termination
  by (relation "measure nat") auto

declare bit_length.simps [simp del]

definition pow2 :: "int \<Rightarrow> rat" where
  "pow2 e = (if 0 \<le> e then 2 ^ nat e else 1 / 2 ^ nat (- e))"

text \<open>The integer part of the binary logarithm of a positive rational \<open>a / b\<close>: the
  difference of the bit lengths of \<open>a\<close> and \<open>b\<close>, or one less.\<close>

definition adjust_log2 :: "rat \<Rightarrow> int \<Rightarrow> int" where
  "adjust_log2 x k = (if pow2 k \<le> x then k else k - 1)"

definition floor_log2 :: "rat \<Rightarrow> int" where
  "floor_log2 x =
     adjust_log2 \<bar>x\<bar>
       (bit_length (fst (quotient_of \<bar>x\<bar>)) - bit_length (snd (quotient_of \<bar>x\<bar>)))"

text \<open>Rounding to the nearest integer, a tie going to the even one.\<close>

definition nearest_even :: "rat \<Rightarrow> int \<Rightarrow> int" where
  "nearest_even x f =
     (if x - of_int f < 1 / 2 then f
      else if 1 / 2 < x - of_int f then f + 1
      else if even f then f else f + 1)"

definition round_half_even :: "rat \<Rightarrow> int" where
  "round_half_even x = nearest_even x \<lfloor>x\<rfloor>"

definition round_to_ulp :: "rat \<Rightarrow> rat \<Rightarrow> rat" where
  "round_to_ulp x u = of_int (round_half_even (x / u)) * u"

text \<open>The double nearest to a rational (round to nearest, ties to even): 53 binary digits,
  and below \<^verbatim>\<open>2^-1022\<close> the fixed spacing \<^verbatim>\<open>2^-1074\<close> of the subnormal numbers. The
  exponent is not bounded above: a result of magnitude \<^verbatim>\<open>2^1024\<close> or more stands for an
  infinity of the code (\<open>is_inf\<close>).\<close>

definition fl :: "rat \<Rightarrow> rat" where
  "fl x = (if x = 0 then 0 else round_to_ulp x (pow2 (max (floor_log2 x - 52) (- 1074))))"

definition is_inf :: "rat \<Rightarrow> bool" where
  "is_inf x = (2 ^ 1024 \<le> \<bar>x\<bar>)"

text \<open>Float arithmetic of the source: \<^verbatim>\<open>a * b\<close> and \<^verbatim>\<open>a + b\<close> on floats, and the conversion
  of an integer operand that Python makes before a mixed operation (for an integer beyond
  the range of the doubles the code raises instead; quantities, which grow by 1 with a
  request, do not get there).\<close>

definition float_mul :: "rat \<Rightarrow> rat \<Rightarrow> rat" where
  "float_mul a b = fl (a * b)"

definition float_add :: "rat \<Rightarrow> rat \<Rightarrow> rat" where
  "float_add a b = fl (a + b)"

definition float_of_int :: "int \<Rightarrow> rat" where
  "float_of_int n = fl (of_int n)"

text \<open>Python's \<^verbatim>\<open>int\<close> on a float: truncation towards zero; on an infinity it raises
  OverflowError.\<close>

definition trunc :: "rat \<Rightarrow> int" where
  "trunc r = (if 0 \<le> r then \<lfloor>r\<rfloor> else \<lceil>r\<rceil>)"

definition py_int :: "rat \<Rightarrow> error + int" where
  "py_int x = (if is_inf x then Inl OverflowError else Inr (trunc x))"

section \<open>The cart\<close>

text \<open>The first loop of \<^verbatim>\<open>add_to_cart\<close>: an entry without a quantity gets quantity 1.\<close>

definition default_quantity :: "cart_item \<Rightarrow> cart_item" where
  "default_quantity i =
     (case item_quantity i of None \<Rightarrow> i\<lparr>item_quantity := Some 1\<rparr> | Some q \<Rightarrow> i)"

text \<open>The second loop, a \<^verbatim>\<open>for ... else\<close>: the first entry with the name has its quantity
  incremented and the loop breaks; when no entry has the name, a new one is appended.\<close>

fun increment_or_append :: "string \<Rightarrow> rat \<Rightarrow> cart_item list \<Rightarrow> error + cart_item list" where
  "increment_or_append product_name price [] =
     Inr [\<lparr>item_name = product_name, item_price = price, item_quantity = Some 1\<rparr>]"
| "increment_or_append product_name price (i # rest) =
     (if item_name i = product_name
      then (case item_quantity i of
              None \<Rightarrow> Inl KeyError
            | Some q \<Rightarrow> Inr (i\<lparr>item_quantity := Some (q + 1)\<rparr> # rest))
      else (case increment_or_append product_name price rest of
              Inl e \<Rightarrow> Inl e
            | Inr rest' \<Rightarrow> Inr (i # rest')))"

text \<open>\<^verbatim>\<open>request.referrer or url_for("main")\<close>: an absent or empty referrer is falsy.\<close>

definition referrer_or_main :: "string option \<Rightarrow> location" where
  "referrer_or_main r =
     (case r of None \<Rightarrow> UrlFor ''main'' | Some u \<Rightarrow> if u = [] then UrlFor ''main'' else Url u)"

definition add_to_cart_body :: "string \<Rightarrow> rat \<Rightarrow> string option \<Rightarrow> handler" where
  "add_to_cart_body product_name price referrer st =
     (case increment_or_append product_name price (map default_quantity (get_cart st)) of
        Inl e \<Rightarrow> Inl e
      | Inr c \<Rightarrow>
          Inr (Redirect (referrer_or_main referrer) 302,
               flash (product_name @ '' added to cart!'') ''success'' (set_cart (Some c) st)))"

definition add_to_cart :: "string \<Rightarrow> rat \<Rightarrow> string option \<Rightarrow> handler" where
  "add_to_cart product_name price referrer =
     login_required (add_to_cart_body product_name price referrer)"

text \<open>\<^verbatim>\<open>sum(item["price"] * item["quantity"] for item in cart_items)\<close>: each product is a
  float product of the price and the quantity converted to a float, and \<^verbatim>\<open>sum\<close> adds the
  products to 0 from left to right, each partial sum rounded (CPython up to 3.11; from 3.12
  on \<^verbatim>\<open>sum\<close> carries a correction term, with the same result for one or two entries). An
  entry without a quantity raises.\<close>

fun sum_lines :: "rat \<Rightarrow> cart_item list \<Rightarrow> error + rat" where
  "sum_lines acc [] = Inr acc"
| "sum_lines acc (i # rest) =
     (case item_quantity i of
        None \<Rightarrow> Inl KeyError
      | Some q \<Rightarrow>
          sum_lines (float_add acc (float_mul (item_price i) (float_of_int q))) rest)"

definition cart_body :: handler where
  "cart_body st =
     (let cart_items = get_cart st in
      case sum_lines 0 cart_items of
        Inl e \<Rightarrow> Inl e
      | Inr tot \<Rightarrow> Inr (Render ''cart.html'' [CartItems cart_items, Total tot], st))"

definition cart :: handler where
  "cart = login_required cart_body"

section \<open>Checkout\<close>

text \<open>\<^verbatim>\<open>int(item['price'] * 100)\<close>: the float product, truncated.\<close>

definition unit_amount :: "rat \<Rightarrow> error + int" where
  "unit_amount price = py_int (float_mul price (float_of_int 100))"

text \<open>The loop of \<^verbatim>\<open>checkout\<close> that builds \<^verbatim>\<open>session_items\<close>, one per cart entry. The
  dict of an entry is built key by key, the unit amount before the quantity.\<close>

fun session_items :: "cart_item list \<Rightarrow> error + line_item list" where
  "session_items [] = Inr []"
| "session_items (i # rest) =
     (case unit_amount (item_price i) of
        Inl e \<Rightarrow> Inl e
      | Inr amount \<Rightarrow>
          (case item_quantity i of
             None \<Rightarrow> Inl KeyError
           | Some q \<Rightarrow>
               (case session_items rest of
                  Inl e \<Rightarrow> Inl e
                | Inr ls \<Rightarrow>
                    Inr (\<lparr>li_currency = ''usd'', li_name = item_name i,
                          li_unit_amount = amount, li_quantity = q\<rparr> # ls))))"

text \<open>The provider is a parameter: \<open>stripe_create\<close> answers a request with the URL of the
  hosted payment page, or with \<open>None\<close> when the call raises.\<close>

definition checkout_body :: "(create_params \<Rightarrow> string option) \<Rightarrow> handler" where
  "checkout_body stripe_create st =
     (let cart_items = get_cart st in
      if cart_items = []
      then Inr (Redirect (UrlFor ''cart'') 302, flash ''Your cart is empty!'' ''warning'' st)
      else
        (case session_items cart_items of
           Inl e \<Rightarrow> Inl e
         | Inr ls \<Rightarrow>
             (let params = \<lparr>payment_method_types = [''card''], line_items = ls,
                             mode = ''payment'', success_url = UrlForExternal ''success'',
                             cancel_url = UrlForExternal ''cart'',
                             customer_email = sess_user (sess st)\<rparr>
              in case stripe_create params of
                   None \<Rightarrow> Inl StripeError
                 | Some u \<Rightarrow>
                     Inr (Redirect (Url u) 303,
                          st\<lparr>stripe_sessions := stripe_sessions st @ [params]\<rparr>))))"

definition checkout :: "(create_params \<Rightarrow> string option) \<Rightarrow> handler" where
  "checkout stripe_create = login_required (checkout_body stripe_create)"

section \<open>Confirmation and cancellation\<close>

text \<open>The row id SQLite gives a new row of a table with an AUTOINCREMENT key: one more than
  the largest id the table holds or has ever held.\<close>

definition next_rowid :: "int \<Rightarrow> int list \<Rightarrow> int" where
  "next_rowid seq ids = max seq (fold max ids 0) + 1"

definition insert_order :: "string \<Rightarrow> rat \<Rightarrow> string \<Rightarrow> database \<Rightarrow> int \<times> database" where
  "insert_order email tot now d =
     (let oid = next_rowid (seq_orders d) (map o_id (orders d)) in
      (oid, d\<lparr>orders := orders d @
                   [\<lparr>o_id = oid, o_user_email = email, o_total = tot, o_created_at = now\<rparr>],
               seq_orders := oid\<rparr>))"

definition insert_order_item ::
  "int \<Rightarrow> int option \<Rightarrow> string \<Rightarrow> rat \<Rightarrow> int \<Rightarrow> database \<Rightarrow> database" where
  "insert_order_item order_id product_id nm unit_price q d =
     (let iid = next_rowid (seq_order_items d) (map oi_id (order_items d)) in
      d\<lparr>order_items := order_items d @
             [\<lparr>oi_id = iid, oi_order_id = order_id, oi_product_id = product_id,
               oi_product_name = nm, oi_unit_price = unit_price, oi_quantity = q\<rparr>],
        seq_order_items := iid\<rparr>)"

text \<open>\<^verbatim>\<open>SELECT id FROM products WHERE name = ?\<close> followed by \<^verbatim>\<open>fetchone\<close>: the id of the
  first row with the name.\<close>

definition select_product_id :: "string \<Rightarrow> product_row list \<Rightarrow> int option" where
  "select_product_id nm ps = map_option p_id (find (\<lambda>r. p_name r = nm) ps)"

text \<open>\<^verbatim>\<open>UPDATE products SET stock = stock - ? WHERE id = ?\<close>\<close>

definition update_stock :: "int \<Rightarrow> int \<Rightarrow> product_row list \<Rightarrow> product_row list" where
  "update_stock q pid ps =
     map (\<lambda>r. if p_id r = pid then r\<lparr>p_stock := p_stock r - q\<rparr> else r) ps"

text \<open>The loop of \<^verbatim>\<open>success\<close> over the cart entries.\<close>

fun record_items :: "int \<Rightarrow> cart_item list \<Rightarrow> database \<Rightarrow> error + database" where
  "record_items order_id [] d = Inr d"
| "record_items order_id (i # rest) d =
     (let product_id = select_product_id (item_name i) (products d) in
      case item_quantity i of
        None \<Rightarrow> Inl KeyError
      | Some q \<Rightarrow>
          (let d1 = insert_order_item order_id product_id (item_name i) (item_price i) q d;
               d2 = (case product_id of
                       None \<Rightarrow> d1
                     | Some pid \<Rightarrow> d1\<lparr>products := update_stock q pid (products d1)\<rparr>)
           in record_items order_id rest d2))"

text \<open>\<open>now\<close> is \<^verbatim>\<open>datetime.utcnow().isoformat()\<close> at the request. The column
  \<^verbatim>\<open>user_email\<close> is NOT NULL, so inserting the order without a session user raises.\<close>

definition success_body :: "string \<Rightarrow> handler" where
  "success_body now st =
     (let cart_items = get_cart st;
          st1 = set_cart None st
      in if cart_items = [] then Inr (Render ''success.html'' [], st1)
         else
           (case sum_lines 0 cart_items of
              Inl e \<Rightarrow> Inl e
            | Inr tot \<Rightarrow>
                (case sess_user (sess st1) of
                   None \<Rightarrow> Inl IntegrityError
                 | Some email \<Rightarrow>
                     (let (order_id, d) = insert_order email tot now (db st1) in
                      case record_items order_id cart_items d of
                        Inl e \<Rightarrow> Inl e
                      | Inr d' \<Rightarrow> Inr (Render ''success.html'' [], st1\<lparr>db := d'\<rparr>)))))"

definition success :: "string \<Rightarrow> handler" where
  "success now = login_required (success_body now)"

definition cancel_body :: handler where
  "cancel_body st = Inr (Redirect (UrlFor ''cart'') 302, flash ''Payment canceled.'' ''warning'' st)"

definition cancel :: handler where
  "cancel = login_required cancel_body"

section \<open>Registration\<close>

definition in_range :: "nat \<Rightarrow> nat \<Rightarrow> char \<Rightarrow> bool" where
  "in_range lo hi c = (lo \<le> of_char c \<and> (of_char c :: nat) \<le> hi)"

text \<open>The character class \<^verbatim>\<open>[!@#$%^&*(),.?\":{}|<>]\<close> of the last pattern.\<close>

definition is_symbol :: "char \<Rightarrow> bool" where
  "is_symbol c = (c \<in> set ''!@#$%^&*(),.?:{}|<>'' \<or> c = CHR 0x22)"

definition password_is_strong :: "string \<Rightarrow> bool" where
  "password_is_strong password =
     (length password \<ge> 8
      \<and> list_ex (in_range 65 90) password
      \<and> list_ex (in_range 97 122) password
      \<and> list_ex (in_range 48 57) password
      \<and> list_ex is_symbol password)"

text \<open>\<^verbatim>\<open>str.strip\<close> and \<^verbatim>\<open>str.lower\<close> on code points below 256. The whitespace
  characters are 9 to 13, 28 to 32, 133 and 160; the upper-case letters are A to Z and
  192 to 222 without the multiplication sign 215, each 32 below its lower-case letter.\<close>

definition is_space :: "char \<Rightarrow> bool" where
  "is_space c = (in_range 9 13 c \<or> in_range 28 32 c \<or> in_range 133 133 c \<or> in_range 160 160 c)"

definition is_upper :: "char \<Rightarrow> bool" where
  "is_upper c = (in_range 65 90 c \<or> in_range 192 214 c \<or> in_range 216 222 c)"

definition strip :: "string \<Rightarrow> string" where
  "strip s = rev (dropWhile is_space (rev (dropWhile is_space s)))"

definition lower :: "string \<Rightarrow> string" where
  "lower s = map (\<lambda>c. if is_upper c then char_of (of_char c + (32::nat)) else c) s"

datatype http_request = GET | POST "string \<Rightarrow> string option"

text \<open>\<^verbatim>\<open>INSERT INTO users (email, password) VALUES (?, ?)\<close> on the table of
  \<^verbatim>\<open>admin_route.py\<close>, which both programs open: \<^verbatim>\<open>email\<close> is UNIQUE (compared byte by
  byte), \<^verbatim>\<open>role\<close> defaults to \<^verbatim>\<open>'user'\<close>.\<close>

definition insert_user :: "string \<Rightarrow> string \<Rightarrow> database \<Rightarrow> error + database" where
  "insert_user email hashed d =
     (if email \<in> set (map u_email (users d)) then Inl IntegrityError
      else
        (let uid = next_rowid (seq_users d) (map u_id (users d)) in
         Inr (d\<lparr>users := users d @
                    [\<lparr>u_id = uid, u_email = email, u_password = hashed, u_role = Some ''user''\<rparr>],
                 seq_users := uid\<rparr>)))"

text \<open>\<^verbatim>\<open>register\<close> of \<^verbatim>\<open>app.py\<close>. The hash function of werkzeug is a parameter.\<close>

definition app_register :: "(string \<Rightarrow> string) \<Rightarrow> http_request \<Rightarrow> handler" where
  "app_register generate_password_hash req st =
     (case req of
        GET \<Rightarrow> Inr (Render ''register_page.html'' [], st)
      | POST form \<Rightarrow>
          (case form ''email'' of
             None \<Rightarrow> Inl BadRequestKeyError
           | Some raw \<Rightarrow>
               (let email = lower (strip raw) in
                case form ''password'' of
                  None \<Rightarrow> Inl BadRequestKeyError
                | Some password \<Rightarrow>
                    if \<not> password_is_strong password
                    then Inr (Redirect (UrlFor ''register'') 302,
                              flash ''Password must be at least 8 characters long and include upper/lowercase letters, numbers, and symbols.'' ''danger'' st)
                    else
                      (case insert_user email (generate_password_hash password) (db st) of
                         Inl e \<Rightarrow>
                           Inr (Redirect (UrlFor ''register'') 302,
                                flash ''Email already registered!'' ''danger'' st)
                       | Inr d \<Rightarrow>
                           Inr (Redirect (UrlFor ''login'') 302,
                                flash ''Account created successfully!'' ''success''
                                  (st\<lparr>db := d\<rparr>))))))"

text \<open>\<^verbatim>\<open>register\<close> of \<^verbatim>\<open>admin_route.py\<close>: the email is stored as the form gives it.\<close>

definition admin_route_register :: "(string \<Rightarrow> string) \<Rightarrow> http_request \<Rightarrow> handler" where
  "admin_route_register generate_password_hash req st =
     (case req of
        GET \<Rightarrow> Inr (Render ''register_page.html'' [], st)
      | POST form \<Rightarrow>
          (case form ''email'' of
             None \<Rightarrow> Inl BadRequestKeyError
           | Some email \<Rightarrow>
               (case form ''password'' of
                  None \<Rightarrow> Inl BadRequestKeyError
                | Some password \<Rightarrow>
                    if \<not> password_is_strong password
                    then Inr (Redirect (UrlFor ''register'') 302,
                              flash ''Weak password. Use uppercase, lowercase, digits & symbols.'' ''danger'' st)
                    else
                      (case insert_user email (generate_password_hash password) (db st) of
                         Inl e \<Rightarrow>
                           Inr (Redirect (UrlFor ''register'') 302,
                                flash ''Email already exists.'' ''danger'' st)
                       | Inr d \<Rightarrow>
                           Inr (Redirect (UrlFor ''login'') 302,
                                flash ''Account created!'' ''success'' (st\<lparr>db := d\<rparr>))))))"

section \<open>The admin gate\<close>

text \<open>\<^verbatim>\<open>SELECT role FROM users WHERE email = ?\<close> with \<^verbatim>\<open>fetchone\<close>: the role column of the
  first row with the email, \<open>None\<close> when there is no such row.\<close>

definition select_role :: "string \<Rightarrow> database \<Rightarrow> string option option" where
  "select_role email d = map_option u_role (find (\<lambda>u. u_email u = email) (users d))"

definition access_denied :: "state \<Rightarrow> error + response \<times> state" where
  "access_denied st =
     Inr (Redirect (UrlFor ''main'') 302, flash ''Access denied. Admins only.'' ''danger'' st)"

definition admin_required :: "handler \<Rightarrow> handler" where
  "admin_required f st =
     (case sess_user (sess st) of
        None \<Rightarrow> Inr (Redirect (UrlFor ''login'') 302, flash ''You must log in.'' ''danger'' st)
      | Some email \<Rightarrow>
          (case select_role email (db st) of
             None \<Rightarrow> access_denied st
           | Some role \<Rightarrow> if role \<noteq> Some ''admin'' then access_denied st else f st))"

definition admin_dashboard :: handler where
  "admin_dashboard = admin_required (\<lambda>st. Inr (Render ''admin/admin_dashboard.html'' [], st))"

definition admin_products :: handler where
  "admin_products = admin_required (\<lambda>st. Inr (Render ''admin/products.html'' [], st))"

definition admin_orders :: handler where
  "admin_orders = admin_required (\<lambda>st. Inr (Render ''admin/orders.html'' [], st))"

definition admin_users :: handler where
  "admin_users =
     admin_required (\<lambda>st.
       Inr (Render ''admin/users.html''
              [Users (map (\<lambda>u. (u_id u, u_email u, u_role u)) (users (db st)))], st))"

section \<open>Sequences of requests\<close>

datatype request =
  AddToCart string rat "string option"
  | ViewCart
  | Checkout
  | Success string
  | Cancel

fun handle :: "(create_params \<Rightarrow> string option) \<Rightarrow> request \<Rightarrow> handler" where
  "handle stripe_create (AddToCart product_name price referrer) = add_to_cart product_name price referrer"
| "handle stripe_create ViewCart = cart"
| "handle stripe_create Checkout = checkout stripe_create"
| "handle stripe_create (Success now) = success now"
| "handle stripe_create Cancel = cancel"

text \<open>The requests of one session, one after the other; an exception ends the run.\<close>

fun run :: "(create_params \<Rightarrow> string option) \<Rightarrow> request list \<Rightarrow> state \<Rightarrow> error + state" where
  "run stripe_create [] st = Inr st"
| "run stripe_create (r # rs) st =
     (case handle stripe_create r st of
        Inl e \<Rightarrow> Inl e
      | Inr (resp, st') \<Rightarrow> run stripe_create rs st')"

section \<open>The specification's cart, and example states\<close>

text \<open>The specification's \<^verbatim>\<open>add(productName, unitPrice)\<close>, from its words: if an item with
  the same name exists, increment its quantity by 1; otherwise append a new entry with
  quantity 1. The item is the first with the name.\<close>

definition spec_add :: "string \<Rightarrow> rat \<Rightarrow> cart_item list \<Rightarrow> cart_item list" where
  "spec_add n p c =
     (let k = length (takeWhile (\<lambda>i. item_name i \<noteq> n) c) in
      if k < length c
      then c[k := (c ! k)\<lparr>item_quantity := map_option (\<lambda>q. q + 1) (item_quantity (c ! k))\<rparr>]
      else c @ [\<lparr>item_name = n, item_price = p, item_quantity = Some 1\<rparr>])"

definition has_quantity :: "cart_item \<Rightarrow> bool" where
  "has_quantity i = (item_quantity i \<noteq> None)"

definition st_empty :: state where
  "st_empty = \<lparr>sess = \<lparr>sess_user = Some ''ann@shop.com'', sess_cart = None, sess_flashes = []\<rparr>,
          db = \<lparr>users = [], products = [], orders = [], order_items = [],
                seq_users = 0, seq_orders = 0, seq_order_items = 0\<rparr>,
          stripe_sessions = []\<rparr>"

definition stripe_down :: "create_params \<Rightarrow> string option" where
  "stripe_down params = None"

definition empty_db :: database where
  "empty_db = \<lparr>users = [], products = [], orders = [], order_items = [],
                seq_users = 0, seq_orders = 0, seq_order_items = 0\<rparr>"

definition widget2 :: cart_item where
  "widget2 = \<lparr>item_name = ''Widget'', item_price = 10, item_quantity = Some 2\<rparr>"

definition gadget1 :: cart_item where
  "gadget1 = \<lparr>item_name = ''Gadget'', item_price = 5, item_quantity = Some 1\<rparr>"

definition st_wg :: state where
  "st_wg = \<lparr>sess = \<lparr>sess_user = Some ''ann@shop.com'', sess_cart = Some [widget2, gadget1],
                    sess_flashes = []\<rparr>,
            db = empty_db, stripe_sessions = []\<rparr>"

text \<open>The quantity a cart takes from the product row with id \<open>pid\<close>: the quantities of
  the entries whose name resolves to that id.\<close>

fun purchased :: "product_row list \<Rightarrow> cart_item list \<Rightarrow> int \<Rightarrow> int" where
  "purchased ps [] pid = 0"
| "purchased ps (i # rest) pid =
     (if select_product_id (item_name i) ps = Some pid
      then (case item_quantity i of None \<Rightarrow> 0 | Some q \<Rightarrow> q) else 0)
     + purchased ps rest pid"

definition shop_db :: database where
  "shop_db = \<lparr>users = [],
              products =
                [\<lparr>p_id = 1, p_name = ''Widget'', p_description = None, p_price = 10, p_stock = 5,
                  p_image_url = None, p_category = None\<rparr>,
                 \<lparr>p_id = 2, p_name = ''Gadget'', p_description = None, p_price = 5, p_stock = 1,
                  p_image_url = None, p_category = None\<rparr>],
              orders = [], order_items = [],
              seq_users = 0, seq_orders = 0, seq_order_items = 0\<rparr>"

definition st_shop :: state where
  "st_shop = \<lparr>sess = \<lparr>sess_user = Some ''ann@shop.com'', sess_cart = Some [widget2, gadget1],
                      sess_flashes = []\<rparr>,
              db = shop_db, stripe_sessions = []\<rparr>"



definition st_shop_empty :: state where
  "st_shop_empty = \<lparr>sess = \<lparr>sess_user = Some ''ann@shop.com'', sess_cart = None,
                            sess_flashes = []\<rparr>,
                    db = shop_db, stripe_sessions = []\<rparr>"

text \<open>States of the runs that refute claims C2 and C3.\<close>

definition gadget2 :: cart_item where
  "gadget2 = \<lparr>item_name = ''Gadget'', item_price = 5, item_quantity = Some 2\<rparr>"

definition st_gadget :: "cart_item \<Rightarrow> nat \<Rightarrow> state" where
  "st_gadget g n =
     \<lparr>sess = \<lparr>sess_user = Some ''ann@shop.com'', sess_cart = Some [g],
              sess_flashes = replicate n (''success'', ''Gadget added to cart!'')\<rparr>,
      db = shop_db, stripe_sessions = []\<rparr>"

definition st_oversold :: "string \<Rightarrow> state" where
  "st_oversold now =
     \<lparr>sess = \<lparr>sess_user = Some ''ann@shop.com'', sess_cart = None,
              sess_flashes = replicate 2 (''success'', ''Gadget added to cart!'')\<rparr>,
      db = \<lparr>users = [],
             products =
               [\<lparr>p_id = 1, p_name = ''Widget'', p_description = None, p_price = 10, p_stock = 5,
                 p_image_url = None, p_category = None\<rparr>,
                \<lparr>p_id = 2, p_name = ''Gadget'', p_description = None, p_price = 5, p_stock = - 1,
                 p_image_url = None, p_category = None\<rparr>],
             orders = [\<lparr>o_id = 1, o_user_email = ''ann@shop.com'', o_total = 10,
                        o_created_at = now\<rparr>],
             order_items =
               [\<lparr>oi_id = 1, oi_order_id = 1, oi_product_id = Some 2,
                 oi_product_name = ''Gadget'', oi_unit_price = 5, oi_quantity = 2\<rparr>],
             seq_users = 0, seq_orders = 1, seq_order_items = 1\<rparr>,
      stripe_sessions = []\<rparr>"






text \<open>A cart entry that \<^verbatim>\<open>checkout\<close> can turn into a line item: it has a quantity and its
  float product with 100 is finite.\<close>

definition chargeable :: "cart_item \<Rightarrow> bool" where
  "chargeable i =
     (has_quantity i \<and> \<not> is_inf (float_mul (item_price i) (float_of_int 100)))"

text \<open>A pen at 19.99: the route's float converter gives the double nearest to 19.99.\<close>

definition pen :: cart_item where
  "pen = \<lparr>item_name = ''Pen'', item_price = fl (1999 / 100), item_quantity = Some 1\<rparr>"

definition st_pen :: state where
  "st_pen = \<lparr>sess = \<lparr>sess_user = Some ''ann@shop.com'', sess_cart = Some [pen],
                     sess_flashes = [(''success'', ''Pen added to cart!'')]\<rparr>,
             db = \<lparr>users = [], products = [], orders = [], order_items = [],
                   seq_users = 0, seq_orders = 0, seq_order_items = 0\<rparr>,
             stripe_sessions = []\<rparr>"

text \<open>A change of role is no operation of the source; it is made on the table directly:
  \<^verbatim>\<open>UPDATE users SET role = ? WHERE email = ?\<close>.\<close>

definition set_role :: "string \<Rightarrow> string option \<Rightarrow> database \<Rightarrow> database" where
  "set_role email role d =
     d\<lparr>users := map (\<lambda>u. if u_email u = email then u\<lparr>u_role := role\<rparr> else u) (users d)\<rparr>"

text \<open>Example inputs: a provider that answers every request, a form, a hash function, and
  states of the admin program.\<close>

definition stripe_ok :: "create_params \<Rightarrow> string option" where
  "stripe_ok params = Some ''https://checkout.stripe.com/c/pay/cs_test_a1''"

definition form_of :: "string \<Rightarrow> string \<Rightarrow> string \<Rightarrow> string option" where
  "form_of email password k =
     (if k = ''email'' then Some email else if k = ''password'' then Some password else None)"

definition example_hash :: "string \<Rightarrow> string" where
  "example_hash password = ''scrypt:32768:8:1$'' @ rev password"

definition admin_db :: database where
  "admin_db = \<lparr>users =
                 [\<lparr>u_id = 1, u_email = ''admin@shop.com'',
                   u_password = example_hash ''Admin123!'', u_role = Some ''admin''\<rparr>,
                  \<lparr>u_id = 2, u_email = ''ann@shop.com'',
                   u_password = example_hash ''Str0ng!pw'', u_role = Some ''user''\<rparr>],
               products = [], orders = [], order_items = [],
               seq_users = 2, seq_orders = 0, seq_order_items = 0\<rparr>"

definition st_user :: "string option \<Rightarrow> database \<Rightarrow> state" where
  "st_user u d = \<lparr>sess = \<lparr>sess_user = u, sess_cart = None, sess_flashes = []\<rparr>,
                 db = d, stripe_sessions = []\<rparr>"

definition bob_db :: database where
  "bob_db = \<lparr>users = [\<lparr>u_id = 1, u_email = ''bob@shop.com'',
                         u_password = example_hash ''Str0ng!pw'', u_role = Some ''user''\<rparr>],
             products = [], orders = [], order_items = [],
             seq_users = 1, seq_orders = 0, seq_order_items = 0\<rparr>"

definition bob_twice_db :: database where
  "bob_twice_db =
     \<lparr>users = [\<lparr>u_id = 1, u_email = ''bob@shop.com'',
                u_password = example_hash ''Str0ng!pw'', u_role = Some ''user''\<rparr>,
               \<lparr>u_id = 2, u_email = ''Bob@Shop.com'',
                u_password = example_hash ''Str0ng!pw'', u_role = Some ''user''\<rparr>],
      products = [], orders = [], order_items = [],
      seq_users = 2, seq_orders = 0, seq_order_items = 0\<rparr>"

section \<open>Properties of the cart\<close>

declare sum_lines.simps [simp del]

lemma sum_lines_Nil [simp]: "sum_lines acc [] = Inr acc"
  by (simp add: sum_lines.simps)

text \<open>Totals of the example carts, evaluated with the float operations.\<close>

lemma sum_widget_2:
  "sum_lines 0 [\<lparr>item_name = ''Widget'', item_price = 10, item_quantity = Some 2\<rparr>] = Inr 20"
  by code_simp


lemma sum_gadget_2:
  "sum_lines 0 [\<lparr>item_name = ''Gadget'', item_price = 5, item_quantity = Some 2\<rparr>] = Inr 10"
  by code_simp

lemma sum_widget_2_gadget_1:
  "sum_lines 0 [\<lparr>item_name = ''Widget'', item_price = 10, item_quantity = Some 2\<rparr>,
                \<lparr>item_name = ''Gadget'', item_price = 5, item_quantity = Some 1\<rparr>] = Inr 25"
  by code_simp

lemma item_name_default [simp]: "item_name (default_quantity i) = item_name i"
  by (simp add: default_quantity_def split: option.splits)

lemma item_price_default [simp]: "item_price (default_quantity i) = item_price i"
  by (simp add: default_quantity_def split: option.splits)

lemma has_quantity_default [simp]: "has_quantity (default_quantity i)"
  by (simp add: default_quantity_def has_quantity_def split: option.splits)

lemma default_quantity_id [simp]: "has_quantity i \<Longrightarrow> default_quantity i = i"
  by (auto simp: default_quantity_def has_quantity_def)

lemma increment_or_append_spec:
  "list_all has_quantity c \<Longrightarrow> increment_or_append n p c = Inr (spec_add n p c)"
proof (induction c)
  case Nil
  show ?case by (simp add: spec_add_def)
next
  case (Cons i c)
  then show ?case
    by (cases "item_name i = n") (auto simp: spec_add_def Let_def has_quantity_def)
qed

lemma list_all_default: "list_all has_quantity (map default_quantity c)"
  by (induction c) auto

lemma map_default_id: "list_all has_quantity c \<Longrightarrow> map default_quantity c = c"
  by (induction c) auto

lemma sess_user_flash [simp]: "sess_user (sess (flash m k st)) = sess_user (sess st)"
  by (simp add: flash_def)

lemma sess_user_set_cart [simp]: "sess_user (sess (set_cart c st)) = sess_user (sess st)"
  by (simp add: set_cart_def)

lemma get_cart_flash [simp]: "get_cart (flash m k st) = get_cart st"
  by (simp add: flash_def get_cart_def)

lemma sess_cart_flash [simp]: "sess_cart (sess (flash m k st)) = sess_cart (sess st)"
  by (simp add: flash_def)

lemma sess_cart_set_cart [simp]: "sess_cart (sess (set_cart c st)) = c"
  by (simp add: set_cart_def)

lemma get_cart_set_cart [simp]: "get_cart (set_cart (Some c) st) = c"
  by (simp add: set_cart_def get_cart_def)

lemma get_cart_set_cart_None [simp]: "get_cart (set_cart None st) = []"
  by (simp add: set_cart_def get_cart_def)

lemma db_flash [simp]: "db (flash m k st) = db st"
  by (simp add: flash_def)

lemma db_set_cart [simp]: "db (set_cart c st) = db st"
  by (simp add: set_cart_def)

lemma stripe_flash [simp]: "stripe_sessions (flash m k st) = stripe_sessions st"
  by (simp add: flash_def)

lemma stripe_set_cart [simp]: "stripe_sessions (set_cart c st) = stripe_sessions st"
  by (simp add: set_cart_def)

lemma add_to_cart_logged_in:
  assumes "sess_user (sess st) = Some u"
  shows "add_to_cart n p r st =
     Inr (Redirect (referrer_or_main r) 302,
          flash (n @ '' added to cart!'') ''success''
            (set_cart (Some (spec_add n p (map default_quantity (get_cart st)))) st))"
  using assms
  by (simp add: add_to_cart_def login_required_def add_to_cart_body_def
      increment_or_append_spec [OF list_all_default])

lemma widget_twice:
  assumes "sess_user (sess st) = Some u" and "get_cart st = []"
  shows "\<exists>st2. run sc [AddToCart ''Widget'' 10 r, AddToCart ''Widget'' 10 r] st = Inr st2
           \<and> sess_cart (sess st2) =
               Some [\<lparr>item_name = ''Widget'', item_price = 10, item_quantity = Some 2\<rparr>]
           \<and> cart st2 =
               Inr (Render ''cart.html''
                      [CartItems [\<lparr>item_name = ''Widget'', item_price = 10, item_quantity = Some 2\<rparr>],
                       Total 20], st2)"
proof -
  let ?w1 = "\<lparr>item_name = ''Widget'', item_price = 10, item_quantity = Some 1\<rparr>"
  let ?w2 = "\<lparr>item_name = ''Widget'', item_price = 10, item_quantity = Some 2\<rparr>"
  let ?s1 = "flash ''Widget added to cart!'' ''success'' (set_cart (Some [?w1]) st)"
  let ?s2 = "flash ''Widget added to cart!'' ''success'' (set_cart (Some [?w2]) ?s1)"
  have a1: "add_to_cart ''Widget'' 10 r st = Inr (Redirect (referrer_or_main r) 302, ?s1)"
    using add_to_cart_logged_in [OF assms(1), of "''Widget''" 10 r] assms(2) by (simp add: spec_add_def)
  have u1: "sess_user (sess ?s1) = Some u"
    using assms(1) by simp
  have d1: "default_quantity ?w1 = ?w1"
    by (simp add: default_quantity_def)
  have a2: "add_to_cart ''Widget'' 10 r ?s1 = Inr (Redirect (referrer_or_main r) 302, ?s2)"
    using add_to_cart_logged_in [OF u1, of "''Widget''" 10 r] by (simp add: spec_add_def d1)
  have r: "run sc [AddToCart ''Widget'' 10 r, AddToCart ''Widget'' 10 r] st = Inr ?s2"
    using a1 a2 by simp
  have c: "cart ?s2 = Inr (Render ''cart.html'' [CartItems [?w2], Total 20], ?s2)"
    using assms(1) by (simp add: cart_def login_required_def cart_body_def Let_def sum_widget_2)
  have k: "sess_cart (sess ?s2) = Some [?w2]"
    by simp
  from r c k show ?thesis by blast
qed

lemma increment_keeps_price:
  "find (\<lambda>i. item_name i = n) c = Some it \<Longrightarrow> increment_or_append n p c = Inr c' \<Longrightarrow>
   find (\<lambda>i. item_name i = n) c'
     = Some (it\<lparr>item_quantity := map_option (\<lambda>q. q + 1) (item_quantity it)\<rparr>)
   \<and> map item_name c' = map item_name c \<and> map item_price c' = map item_price c"
  by (induction c arbitrary: c') (auto split: if_splits option.splits sum.splits)

lemma find_default:
  "find (\<lambda>i. item_name i = n) (map default_quantity c)
     = map_option default_quantity (find (\<lambda>i. item_name i = n) c)"
  by (induction c) auto

text \<open>Claim C5. For a logged-in session, \<^verbatim>\<open>add_to_cart\<close> answers with a redirect and
  stores the cart the specification's \<open>add\<close> gives on the cart with defaulted quantities:
  the first item with the name has its quantity incremented by exactly 1, and with no such
  item a new entry with quantity 1 is appended. Defaulting changes nothing in a cart whose
  entries all have a quantity. Adding ''Widget'' at 10.00 twice to an empty cart leaves
  exactly one entry, Widget at 10.00 with quantity 2, and the cart page shows the total
  20.00.\<close>

theorem add_to_cart_merges_by_name:
  assumes "sess_user (sess st) = Some u"
  shows "add_to_cart n p r st =
           Inr (Redirect (referrer_or_main r) 302,
                flash (n @ '' added to cart!'') ''success''
                  (set_cart (Some (spec_add n p (map default_quantity (get_cart st)))) st))
         \<and> (list_all has_quantity (get_cart st) \<longrightarrow>
              map default_quantity (get_cart st) = get_cart st)
         \<and> (get_cart st = [] \<longrightarrow>
              (\<exists>st2. run sc [AddToCart ''Widget'' 10 r, AddToCart ''Widget'' 10 r] st = Inr st2
                 \<and> sess_cart (sess st2) = Some [widget2]
                 \<and> cart st2 = Inr (Render ''cart.html'' [CartItems [widget2], Total 20], st2)))"
proof (intro conjI impI)
  show "add_to_cart n p r st =
           Inr (Redirect (referrer_or_main r) 302,
                flash (n @ '' added to cart!'') ''success''
                  (set_cart (Some (spec_add n p (map default_quantity (get_cart st)))) st))"
    by (rule add_to_cart_logged_in [OF assms])
next
  assume "list_all has_quantity (get_cart st)"
  then show "map default_quantity (get_cart st) = get_cart st"
    by (rule map_default_id)
next
  assume "get_cart st = []"
  with assms show "\<exists>st2. run sc [AddToCart ''Widget'' 10 r, AddToCart ''Widget'' 10 r] st = Inr st2
                 \<and> sess_cart (sess st2) = Some [widget2]
                 \<and> cart st2 = Inr (Render ''cart.html'' [CartItems [widget2], Total 20], st2)"
    unfolding widget2_def by (rule widget_twice)
qed

theorem add_to_cart_merges_by_name_witness:
  "sess_user (sess st_empty) = Some ''ann@shop.com'' \<and> get_cart st_empty = []
   \<and> list_all has_quantity (get_cart st_wg)
   \<and> map_sum id (get_cart \<circ> snd) (add_to_cart ''Gadget'' 5 None st_wg)
       = Inr [widget2, gadget1\<lparr>item_quantity := Some 2\<rparr>]
   \<and> map_sum id (get_cart \<circ> snd) (add_to_cart ''Cable'' 3 None st_wg)
       = Inr [widget2, gadget1, \<lparr>item_name = ''Cable'', item_price = 3, item_quantity = Some 1\<rparr>]
   \<and> (\<exists>st2. run stripe_down [AddToCart ''Widget'' 10 None, AddToCart ''Widget'' 10 None] st_empty = Inr st2
          \<and> sess_cart (sess st2) = Some [widget2]
          \<and> cart st2 = Inr (Render ''cart.html'' [CartItems [widget2], Total 20], st2))"
proof -
  have u0: "sess_user (sess st_empty) = Some ''ann@shop.com''"
    by (simp add: st_empty_def)
  have c0: "get_cart st_empty = []"
    by (simp add: st_empty_def get_cart_def)
  have u1: "sess_user (sess st_wg) = Some ''ann@shop.com''"
    by (simp add: st_wg_def)
  have c1: "get_cart st_wg = [widget2, gadget1]"
    by (simp add: st_wg_def get_cart_def)
  have q1: "list_all has_quantity (get_cart st_wg)"
    by (simp add: c1 has_quantity_def widget2_def gadget1_def)
  have g: "map_sum id (get_cart \<circ> snd) (add_to_cart ''Gadget'' 5 None st_wg)
       = Inr [widget2, gadget1\<lparr>item_quantity := Some 2\<rparr>]"
    using add_to_cart_merges_by_name [OF u1, of "''Gadget''" 5 None] q1
    by (simp add: c1 spec_add_def widget2_def gadget1_def)
  have k: "map_sum id (get_cart \<circ> snd) (add_to_cart ''Cable'' 3 None st_wg)
       = Inr [widget2, gadget1, \<lparr>item_name = ''Cable'', item_price = 3, item_quantity = Some 1\<rparr>]"
    using add_to_cart_merges_by_name [OF u1, of "''Cable''" 3 None] q1
    by (simp add: c1 spec_add_def widget2_def gadget1_def)
  have w: "\<exists>st2. run stripe_down [AddToCart ''Widget'' 10 None, AddToCart ''Widget'' 10 None] st_empty = Inr st2
          \<and> sess_cart (sess st2) = Some [widget2]
          \<and> cart st2 = Inr (Render ''cart.html'' [CartItems [widget2], Total 20], st2)"
    using add_to_cart_merges_by_name [OF u0, of _ _ None stripe_down] c0 by blast
  from u0 c0 q1 g k w show ?thesis by blast
qed

text \<open>Claim C9. Cart items are merged by name alone: when the cart of a logged-in session
  holds an item named \<open>n\<close>, adding \<open>n\<close> at any price \<open>p'\<close> increments the quantity of
  the first such item by 1 (an absent quantity counts as 1) and leaves its stored price,
  and every other name and price of the cart, as they were; no entry is added.\<close>

theorem add_to_cart_ignores_new_price:
  assumes "sess_user (sess st) = Some u"
      and "find (\<lambda>i. item_name i = n) (get_cart st) = Some it"
  shows "\<exists>resp st'. add_to_cart n p' r st = Inr (resp, st')
           \<and> find (\<lambda>i. item_name i = n) (get_cart st')
               = Some (it\<lparr>item_quantity :=
                             Some ((case item_quantity it of None \<Rightarrow> 1 | Some q \<Rightarrow> q) + 1)\<rparr>)
           \<and> map item_name (get_cart st') = map item_name (get_cart st)
           \<and> map item_price (get_cart st') = map item_price (get_cart st)"
proof -
  let ?c = "map default_quantity (get_cart st)"
  have f: "find (\<lambda>i. item_name i = n) ?c = Some (default_quantity it)"
    by (simp add: find_default assms(2))
  have e: "increment_or_append n p' ?c = Inr (spec_add n p' ?c)"
    by (rule increment_or_append_spec [OF list_all_default])
  note k = increment_keeps_price [OF f e]
  have d: "(default_quantity it)\<lparr>item_quantity :=
              map_option (\<lambda>q. q + 1) (item_quantity (default_quantity it))\<rparr>
           = it\<lparr>item_quantity := Some ((case item_quantity it of None \<Rightarrow> 1 | Some q \<Rightarrow> q) + 1)\<rparr>"
    by (simp add: default_quantity_def split: option.splits)
  have m: "map item_name ?c = map item_name (get_cart st)"
          "map item_price ?c = map item_price (get_cart st)"
    by simp_all
  show ?thesis
    using k d m by (simp add: add_to_cart_logged_in [OF assms(1)])
qed

theorem add_to_cart_ignores_new_price_witness:
  "sess_user (sess st_wg) = Some ''ann@shop.com''
   \<and> find (\<lambda>i. item_name i = ''Gadget'') (get_cart st_wg) = Some gadget1
   \<and> (\<exists>resp st'. add_to_cart ''Gadget'' 7 None st_wg = Inr (resp, st')
          \<and> find (\<lambda>i. item_name i = ''Gadget'') (get_cart st')
               = Some \<lparr>item_name = ''Gadget'', item_price = 5, item_quantity = Some 2\<rparr>
          \<and> map item_price (get_cart st') = [10, 5])"
proof -
  have u: "sess_user (sess st_wg) = Some ''ann@shop.com''"
    by (simp add: st_wg_def)
  have f: "find (\<lambda>i. item_name i = ''Gadget'') (get_cart st_wg) = Some gadget1"
    by (simp add: st_wg_def get_cart_def widget2_def gadget1_def)
  have c: "map item_price (get_cart st_wg) = [10, 5]"
    by (simp add: st_wg_def get_cart_def widget2_def gadget1_def)
  have g: "gadget1\<lparr>item_quantity := Some ((case item_quantity gadget1 of None \<Rightarrow> 1 | Some q \<Rightarrow> q) + 1)\<rparr>
           = \<lparr>item_name = ''Gadget'', item_price = 5, item_quantity = Some 2\<rparr>"
    by (simp add: gadget1_def)
  from add_to_cart_ignores_new_price [OF u f, of 7 None]
  obtain resp st' where "add_to_cart ''Gadget'' 7 None st_wg = Inr (resp, st')"
    and "find (\<lambda>i. item_name i = ''Gadget'') (get_cart st')
           = Some \<lparr>item_name = ''Gadget'', item_price = 5, item_quantity = Some 2\<rparr>"
    and "map item_price (get_cart st') = [10, 5]"
    unfolding c g by auto
  with u f show ?thesis by auto
qed

text \<open>Every cart that \<^verbatim>\<open>add_to_cart\<close> writes has a quantity in each entry, which is what
  the theorems on checkout and confirmation below ask of the cart.\<close>

lemma increment_or_append_has_quantity:
  "list_all has_quantity c \<Longrightarrow> increment_or_append n p c = Inr c' \<Longrightarrow> list_all has_quantity c'"
  by (induction c arbitrary: c') (auto simp: has_quantity_def split: if_splits option.splits sum.splits)

lemma add_to_cart_has_quantity:
  assumes "add_to_cart n p r st = Inr (resp, st')" and "sess_user (sess st) = Some u"
  shows "list_all has_quantity (get_cart st')"
proof -
  from assms obtain c' where
    "increment_or_append n p (map default_quantity (get_cart st)) = Inr c'" and "get_cart st' = c'"
    by (auto simp: add_to_cart_def login_required_def add_to_cart_body_def split: sum.splits)
  then show ?thesis
    using increment_or_append_has_quantity [OF list_all_default] by simp
qed

section \<open>Properties of confirmation and cancellation\<close>

lemma select_update_stock [simp]:
  "select_product_id n (update_stock q pid ps) = select_product_id n ps"
  by (induction ps) (auto simp: select_product_id_def update_stock_def)

lemma purchased_update_stock [simp]:
  "purchased (update_stock q pid ps) c = purchased ps c"
  by (induction c) (auto simp: fun_eq_iff)

lemma sum_lines_acc:
  "list_all has_quantity c \<Longrightarrow> \<exists>t. sum_lines acc c = Inr t"
  by (induction c arbitrary: acc) (auto simp: has_quantity_def sum_lines.simps)

lemma record_items_effect:
  "list_all has_quantity c \<Longrightarrow>
   \<exists>d'. record_items oid c d = Inr d'
      \<and> products d' =
          map (\<lambda>r. r\<lparr>p_stock := p_stock r - purchased (products d) c (p_id r)\<rparr>) (products d)
      \<and> orders d' = orders d \<and> users d' = users d"
proof (induction c arbitrary: d)
  case Nil
  show ?case by simp
next
  case (Cons i c)
  from Cons.prems have c: "list_all has_quantity c" and "has_quantity i"
    by simp_all
  then obtain q where q: "item_quantity i = Some q"
    by (auto simp: has_quantity_def)
  let ?d1 = "insert_order_item oid (select_product_id (item_name i) (products d))
               (item_name i) (item_price i) q d"
  have d1: "products ?d1 = products d" "orders ?d1 = orders d" "users ?d1 = users d"
    by (simp_all add: insert_order_item_def Let_def)
  show ?case
  proof (cases "select_product_id (item_name i) (products d)")
    case None
    from Cons.IH [OF c, of ?d1] obtain d' where
      "record_items oid c ?d1 = Inr d'"
      "products d' = map (\<lambda>r. r\<lparr>p_stock := p_stock r - purchased (products ?d1) c (p_id r)\<rparr>) (products ?d1)"
      "orders d' = orders ?d1" "users d' = users ?d1"
      by blast
    then show ?thesis
      using None q d1 by (simp add: Let_def)
  next
    case (Some pid)
    let ?d2 = "?d1\<lparr>products := update_stock q pid (products ?d1)\<rparr>"
    from Cons.IH [OF c, of ?d2] obtain d' where
      r: "record_items oid c ?d2 = Inr d'" and
      p: "products d' = map (\<lambda>r. r\<lparr>p_stock := p_stock r - purchased (products ?d2) c (p_id r)\<rparr>) (products ?d2)" and
      o: "orders d' = orders ?d2" "users d' = users ?d2"
      by blast
    have p': "products d' =
          map (\<lambda>r. r\<lparr>p_stock := p_stock r - purchased (products d) c (p_id r)\<rparr>)
            (update_stock q pid (products d))"
      using p d1 by simp
    have "products d' =
          map (\<lambda>r. r\<lparr>p_stock := p_stock r - purchased (products d) (i # c) (p_id r)\<rparr>) (products d)"
      unfolding p' using Some q by (auto simp: update_stock_def)
    then show ?thesis
      using r o Some q d1 by (simp add: Let_def)
  qed
qed

lemma get_cart_db_update [simp]: "get_cart (st\<lparr>db := d\<rparr>) = get_cart st"
  by (simp add: get_cart_def)

lemma next_rowid_next:
  "next_rowid (next_rowid s ids) (ids @ [next_rowid s ids]) = next_rowid s ids + 1"
  by (simp add: next_rowid_def max_def)

lemma success_nonempty:
  assumes "sess_user (sess st) = Some u" and "get_cart st \<noteq> []"
      and "sum_lines 0 (get_cart st) = Inr tot"
      and "record_items (fst (insert_order u tot now (db st))) (get_cart st)
             (snd (insert_order u tot now (db st))) = Inr d'"
  shows "success now st = Inr (Render ''success.html'' [], (set_cart None st)\<lparr>db := d'\<rparr>)"
  using assms
  by (simp add: success_def login_required_def success_body_def Let_def case_prod_beta)

lemma success_empty:
  assumes "get_cart st = []" and "sess_user (sess st) = Some u"
  shows "success now st = Inr (Render ''success.html'' [], set_cart None st)"
  using assms by (simp add: success_def login_required_def success_body_def Let_def)

lemma success_anonymous:
  assumes "sess_user (sess st) = None"
  shows "success now st =
           Inr (Redirect (UrlFor ''login'') 302,
                flash ''Please log in to access this page.'' ''warning'' st)"
  using assms by (simp add: success_def login_required_def)

lemma insert_order_frame [simp]:
  "products (snd (insert_order u tot now d)) = products d"
  "users (snd (insert_order u tot now d)) = users d"
  "order_items (snd (insert_order u tot now d)) = order_items d"
  "seq_order_items (snd (insert_order u tot now d)) = seq_order_items d"
  "orders (snd (insert_order u tot now d)) = orders d @
     [\<lparr>o_id = next_rowid (seq_orders d) (map o_id (orders d)), o_user_email = u,
       o_total = tot, o_created_at = now\<rparr>]"
  "fst (insert_order u tot now d) = next_rowid (seq_orders d) (map o_id (orders d))"
  by (simp_all add: insert_order_def Let_def)

text \<open>Claim C3, as the code has it. For a logged-in session whose cart entries all have a
  quantity, the confirmation always completes, and it lowers the stock of every product
  row by exactly the quantities of the cart entries whose name resolves to that row's id:
  there is no floor at zero and no check for insufficient stock, so the stock can become
  negative.\<close>

theorem success_decrements_stock:
  assumes "sess_user (sess st) = Some u" and "list_all has_quantity (get_cart st)"
  shows "\<exists>st'. success now st = Inr (Render ''success.html'' [], st')
           \<and> products (db st') =
               map (\<lambda>r. r\<lparr>p_stock := p_stock r
                                      - purchased (products (db st)) (get_cart st) (p_id r)\<rparr>)
                 (products (db st))"
proof (cases "get_cart st = []")
  case True
  then show ?thesis
    by (simp add: success_empty [OF True assms(1)])
next
  case False
  from sum_lines_acc [OF assms(2)] obtain tot where t: "sum_lines 0 (get_cart st) = Inr tot"
    by blast
  from record_items_effect [OF assms(2)] obtain d' where
    r: "record_items (fst (insert_order u tot now (db st))) (get_cart st)
          (snd (insert_order u tot now (db st))) = Inr d'" and
    p: "products d' =
          map (\<lambda>r. r\<lparr>p_stock := p_stock r
                 - purchased (products (snd (insert_order u tot now (db st)))) (get_cart st) (p_id r)\<rparr>)
            (products (snd (insert_order u tot now (db st))))"
    by blast
  show ?thesis
    using p by (simp add: success_nonempty [OF assms(1) False t r])
qed

lemma record_widget_gadget:
  "\<exists>d'. record_items oid [widget2, gadget1] d = Inr d'
      \<and> orders d' = orders d
      \<and> order_items d' = order_items d @
           [\<lparr>oi_id = next_rowid (seq_order_items d) (map oi_id (order_items d)),
             oi_order_id = oid,
             oi_product_id = select_product_id ''Widget'' (products d),
             oi_product_name = ''Widget'', oi_unit_price = 10, oi_quantity = 2\<rparr>,
            \<lparr>oi_id = next_rowid (seq_order_items d) (map oi_id (order_items d)) + 1,
             oi_order_id = oid,
             oi_product_id = select_product_id ''Gadget'' (products d),
             oi_product_name = ''Gadget'', oi_unit_price = 5, oi_quantity = 1\<rparr>]"
proof (cases "select_product_id ''Widget'' (products d)")
  case None
  then show ?thesis
    by (cases "select_product_id ''Gadget'' (products d)")
       (simp_all add: widget2_def gadget1_def Let_def insert_order_item_def next_rowid_next)
next
  case (Some pid)
  then show ?thesis
    by (cases "select_product_id ''Gadget'' (products d)")
       (simp_all add: widget2_def gadget1_def Let_def insert_order_item_def next_rowid_next)
qed

text \<open>Claim C1. Confirming checkout for a logged-in user \<open>u\<close> on the cart Widget (10.00,
  quantity 2), Gadget (5.00, quantity 1) appends exactly one order, with the next order id,
  the user's email, the total 25.00 computed from the cart and the timestamp of the request,
  appends exactly two order items that snapshot name, unit price and quantity of each cart
  entry under that order id (the product id is the one the name resolves to), and leaves
  the session without a cart.\<close>

theorem success_creates_order:
  assumes "sess_user (sess st) = Some u"
      and "sess_cart (sess st) = Some [widget2, gadget1]"
  shows "\<exists>st'. success now st = Inr (Render ''success.html'' [], st')
           \<and> orders (db st') = orders (db st) @
                [\<lparr>o_id = next_rowid (seq_orders (db st)) (map o_id (orders (db st))),
                  o_user_email = u, o_total = 25, o_created_at = now\<rparr>]
           \<and> order_items (db st') = order_items (db st) @
                [\<lparr>oi_id = next_rowid (seq_order_items (db st)) (map oi_id (order_items (db st))),
                  oi_order_id = next_rowid (seq_orders (db st)) (map o_id (orders (db st))),
                  oi_product_id = select_product_id ''Widget'' (products (db st)),
                  oi_product_name = ''Widget'', oi_unit_price = 10, oi_quantity = 2\<rparr>,
                 \<lparr>oi_id = next_rowid (seq_order_items (db st)) (map oi_id (order_items (db st))) + 1,
                  oi_order_id = next_rowid (seq_orders (db st)) (map o_id (orders (db st))),
                  oi_product_id = select_product_id ''Gadget'' (products (db st)),
                  oi_product_name = ''Gadget'', oi_unit_price = 5, oi_quantity = 1\<rparr>]
           \<and> sess_cart (sess st') = None \<and> get_cart st' = []"
proof -
  let ?d0 = "snd (insert_order u 25 now (db st))"
  have c: "get_cart st = [widget2, gadget1]"
    using assms(2) by (simp add: get_cart_def)
  have ne: "get_cart st \<noteq> []"
    by (simp add: c)
  have t: "sum_lines 0 (get_cart st) = Inr 25"
    by (simp add: c widget2_def gadget1_def sum_widget_2_gadget_1)
  from record_widget_gadget [of "fst (insert_order u 25 now (db st))" ?d0]
  obtain d' where r: "record_items (fst (insert_order u 25 now (db st))) (get_cart st) ?d0 = Inr d'"
    and o: "orders d' = orders ?d0"
    and i: "order_items d' = order_items ?d0 @
             [\<lparr>oi_id = next_rowid (seq_order_items ?d0) (map oi_id (order_items ?d0)),
               oi_order_id = fst (insert_order u 25 now (db st)),
               oi_product_id = select_product_id ''Widget'' (products ?d0),
               oi_product_name = ''Widget'', oi_unit_price = 10, oi_quantity = 2\<rparr>,
              \<lparr>oi_id = next_rowid (seq_order_items ?d0) (map oi_id (order_items ?d0)) + 1,
               oi_order_id = fst (insert_order u 25 now (db st)),
               oi_product_id = select_product_id ''Gadget'' (products ?d0),
               oi_product_name = ''Gadget'', oi_unit_price = 5, oi_quantity = 1\<rparr>]"
    unfolding c by blast
  show ?thesis
    using o i by (simp add: success_nonempty [OF assms(1) ne t r])
qed


theorem success_creates_order_witness:
  "sess_user (sess st_shop) = Some ''ann@shop.com''
   \<and> sess_cart (sess st_shop) = Some [widget2, gadget1]
   \<and> (\<exists>st'. success ''2026-01-01T12:00:00'' st_shop = Inr (Render ''success.html'' [], st')
          \<and> orders (db st') =
               [\<lparr>o_id = 1, o_user_email = ''ann@shop.com'', o_total = 25,
                 o_created_at = ''2026-01-01T12:00:00''\<rparr>]
          \<and> order_items (db st') =
               [\<lparr>oi_id = 1, oi_order_id = 1, oi_product_id = Some 1, oi_product_name = ''Widget'',
                 oi_unit_price = 10, oi_quantity = 2\<rparr>,
                \<lparr>oi_id = 2, oi_order_id = 1, oi_product_id = Some 2, oi_product_name = ''Gadget'',
                 oi_unit_price = 5, oi_quantity = 1\<rparr>]
          \<and> sess_cart (sess st') = None \<and> get_cart st' = [])"
proof -
  have u: "sess_user (sess st_shop) = Some ''ann@shop.com''"
    by (simp add: st_shop_def)
  have c: "sess_cart (sess st_shop) = Some [widget2, gadget1]"
    by (simp add: st_shop_def)
  from success_creates_order [OF u c, of "''2026-01-01T12:00:00''"] u c show ?thesis
    by (simp add: st_shop_def shop_db_def next_rowid_def select_product_id_def)
qed

theorem success_decrements_stock_witness:
  "sess_user (sess st_shop) = Some ''ann@shop.com''
   \<and> list_all has_quantity (get_cart st_shop)
   \<and> map p_stock (products (db st_shop)) = [5, 1]
   \<and> (\<exists>st'. success ''2026-01-01T12:00:00'' st_shop = Inr (Render ''success.html'' [], st')
          \<and> map p_stock (products (db st')) = [3, 0])"
proof -
  have u: "sess_user (sess st_shop) = Some ''ann@shop.com''"
    by (simp add: st_shop_def)
  have q: "list_all has_quantity (get_cart st_shop)"
    by (simp add: st_shop_def get_cart_def has_quantity_def widget2_def gadget1_def)
  have p: "map p_stock (products (db st_shop)) = [5, 1]"
    by (simp add: st_shop_def shop_db_def)
  from success_decrements_stock [OF u q, of "''2026-01-01T12:00:00''"]
  obtain st' where s: "success ''2026-01-01T12:00:00'' st_shop = Inr (Render ''success.html'' [], st')"
    and "products (db st') =
           map (\<lambda>r. r\<lparr>p_stock := p_stock r
                    - purchased (products (db st_shop)) (get_cart st_shop) (p_id r)\<rparr>)
             (products (db st_shop))"
    by blast
  then have "map p_stock (products (db st')) = [3, 0]"
    by (simp add: st_shop_def shop_db_def get_cart_def widget2_def gadget1_def
        select_product_id_def)
  with s u q p show ?thesis by auto
qed










text \<open>Claim C10. With an empty session cart (absent or the empty list) the confirmation
  returns and changes nothing that persists: the database (orders, order items, stock) and
  the provider's sessions are as before, and the session cart is still empty.\<close>

theorem success_empty_cart_noop:
  assumes "get_cart st = []"
  shows "\<exists>resp st'. success now st = Inr (resp, st')
           \<and> db st' = db st \<and> stripe_sessions st' = stripe_sessions st \<and> get_cart st' = []"
proof (cases "sess_user (sess st)")
  case None
  then show ?thesis
    using assms by (simp add: success_anonymous)
next
  case (Some u)
  then show ?thesis
    using assms by (simp add: success_empty)
qed

theorem success_empty_cart_noop_witness:
  "get_cart st_empty = []
   \<and> (\<exists>resp st'. success ''2026-01-01T12:00:00'' st_empty = Inr (resp, st')
          \<and> db st' = db st_empty \<and> orders (db st') = [] \<and> order_items (db st') = []
          \<and> stripe_sessions st' = [] \<and> get_cart st' = [])"
proof -
  have c: "get_cart st_empty = []"
    by (simp add: st_empty_def get_cart_def)
  from success_empty_cart_noop [OF c, of "''2026-01-01T12:00:00''"]
  obtain resp st' where "success ''2026-01-01T12:00:00'' st_empty = Inr (resp, st')"
    and "db st' = db st_empty" and "stripe_sessions st' = stripe_sessions st_empty"
    and "get_cart st' = []"
    by blast
  with c show ?thesis
    by (auto simp: st_empty_def)
qed

text \<open>Claim C8. \<^verbatim>\<open>cancel\<close> answers with a redirect (to the cart page when logged in) and
  leaves the session cart, the session user, the database and the provider's sessions as
  they were; the cart page shows afterwards what it showed before.\<close>

theorem cancel_leaves_cart:
  "\<exists>st'. cancel st =
            Inr (Redirect (UrlFor (if sess_user (sess st) = None then ''login'' else ''cart'')) 302, st')
         \<and> sess_cart (sess st') = sess_cart (sess st)
         \<and> sess_user (sess st') = sess_user (sess st)
         \<and> db st' = db st
         \<and> stripe_sessions st' = stripe_sessions st
         \<and> map_sum id fst (cart st') = map_sum id fst (cart st)"
  by (auto simp: cancel_def cancel_body_def cart_def cart_body_def login_required_def Let_def
      split: sum.splits)

section \<open>Runs that overdraw the stock and repeat an order\<close>

lemma run_Cons_Inr:
  "handle sc r st = Inr (resp, st') \<Longrightarrow> run sc (r # rs) st = run sc rs st'"
  by simp

lemma add_gadget_first:
  "handle sc (AddToCart ''Gadget'' 5 None) st_shop_empty
     = Inr (Redirect (UrlFor ''main'') 302, st_gadget gadget1 1)"
  by (simp add: add_to_cart_def login_required_def add_to_cart_body_def st_shop_empty_def
      st_gadget_def get_cart_def set_cart_def flash_def gadget1_def referrer_or_main_def)

lemma add_gadget_second:
  "handle sc (AddToCart ''Gadget'' 5 None) (st_gadget gadget1 1)
     = Inr (Redirect (UrlFor ''main'') 302, st_gadget gadget2 2)"
  by (simp add: add_to_cart_def login_required_def add_to_cart_body_def st_gadget_def
      get_cart_def set_cart_def flash_def gadget1_def gadget2_def referrer_or_main_def
      default_quantity_def numeral_2_eq_2)

lemma success_two_gadgets:
  "handle sc (Success now) (st_gadget gadget2 2) = Inr (Render ''success.html'' [], st_oversold now)"
  by (simp add: success_def login_required_def success_body_def st_gadget_def st_oversold_def
      shop_db_def get_cart_def set_cart_def gadget2_def insert_order_def insert_order_item_def
      next_rowid_def select_product_id_def update_stock_def Let_def sum_gadget_2)



text \<open>Claim C3 as stated fails: from a catalog with one Gadget in stock, adding Gadget twice
  and confirming completes and leaves the stock of Gadget at -1.\<close>

theorem stock_goes_negative:
  "map p_stock (products (db st_shop_empty)) = [5, 1]
   \<and> run stripe_down
         [AddToCart ''Gadget'' 5 None, AddToCart ''Gadget'' 5 None, Success ''2026-01-01T12:00:00'']
         st_shop_empty = Inr (st_oversold ''2026-01-01T12:00:00'')
   \<and> map p_stock (products (db (st_oversold ''2026-01-01T12:00:00''))) = [5, - 1]"
proof -
  let ?t = "''2026-01-01T12:00:00''"
  have "run stripe_down [AddToCart ''Gadget'' 5 None, AddToCart ''Gadget'' 5 None, Success ?t]
          st_shop_empty
        = run stripe_down [AddToCart ''Gadget'' 5 None, Success ?t] (st_gadget gadget1 1)"
    by (rule run_Cons_Inr [OF add_gadget_first])
  also have "\<dots> = run stripe_down [Success ?t] (st_gadget gadget2 2)"
    by (rule run_Cons_Inr [OF add_gadget_second])
  also have "\<dots> = run stripe_down [] (st_oversold ?t)"
    by (rule run_Cons_Inr [OF success_two_gadgets])
  also have "\<dots> = Inr (st_oversold ?t)"
    by (rule run.simps(1))
  finally have r: "run stripe_down
      [AddToCart ''Gadget'' 5 None, AddToCart ''Gadget'' 5 None, Success ?t] st_shop_empty
      = Inr (st_oversold ?t)" .
  have i: "map p_stock (products (db st_shop_empty)) = [5, 1]"
    by (simp add: st_shop_empty_def shop_db_def)
  have o: "map p_stock (products (db (st_oversold ?t))) = [5, - 1]"
    by (simp add: st_oversold_def)
  from i r o show ?thesis by (intro conjI)
qed



section \<open>Properties of checkout, the admin gate and registration\<close>

text \<open>Unit amounts of the example prices, evaluated with the float operations: 19.99 times
  100 is the double just below 1999.\<close>

lemma unit_amount_10: "unit_amount 10 = Inr 1000"
  by code_simp

lemma unit_amount_5: "unit_amount 5 = Inr 500"
  by code_simp

lemma unit_amount_pen: "unit_amount (fl (1999 / 100)) = Inr 1998"
  by code_simp

lemma unit_amount_chargeable:
  "chargeable i \<Longrightarrow>
   unit_amount (item_price i) = Inr (trunc (float_mul (item_price i) (float_of_int 100)))"
  by (simp add: chargeable_def unit_amount_def py_int_def)

lemma session_items_ok:
  "list_all chargeable c \<Longrightarrow>
   \<exists>ls. session_items c = Inr ls
      \<and> length ls = length c
      \<and> map li_name ls = map item_name c
      \<and> map li_unit_amount ls
          = map (\<lambda>i. trunc (float_mul (item_price i) (float_of_int 100))) c
      \<and> map (\<lambda>l. Some (li_quantity l)) ls = map item_quantity c
      \<and> list_all (\<lambda>l. li_currency l = ''usd'') ls"
proof (induction c)
  case Nil
  show ?case by simp
next
  case (Cons i c)
  from Cons.prems have i: "chargeable i" and c: "list_all chargeable c"
    by simp_all
  from i obtain q where q: "item_quantity i = Some q"
    by (auto simp: chargeable_def has_quantity_def)
  from Cons.IH [OF c] obtain ls where "session_items c = Inr ls"
    "length ls = length c" "map li_name ls = map item_name c"
    "map li_unit_amount ls = map (\<lambda>i. trunc (float_mul (item_price i) (float_of_int 100))) c"
    "map (\<lambda>l. Some (li_quantity l)) ls = map item_quantity c"
    "list_all (\<lambda>l. li_currency l = ''usd'') ls"
    by blast
  then show ?case
    using q unit_amount_chargeable [OF i] by simp
qed

text \<open>What \<^verbatim>\<open>checkout\<close> does for a logged-in session. On an empty cart it flashes the
  empty-cart warning, redirects to the cart page and requests no payment session. On a
  non-empty cart of chargeable entries it builds one line item per entry, in order, with
  the entry's name, the truncated float product of its price and 100, and its quantity;
  when the provider answers with a URL, the response is a 303 redirect to it and the only
  change of state is the request recorded with the provider.\<close>

lemma checkout_logged_in:
  assumes "sess_user (sess st) = Some u"
  shows "(get_cart st = [] \<longrightarrow>
            checkout sc st =
              Inr (Redirect (UrlFor ''cart'') 302, flash ''Your cart is empty!'' ''warning'' st)
            \<and> stripe_sessions (flash ''Your cart is empty!'' ''warning'' st) = stripe_sessions st)
       \<and> (get_cart st \<noteq> [] \<longrightarrow> list_all chargeable (get_cart st) \<longrightarrow>
            (\<exists>ls. session_items (get_cart st) = Inr ls
               \<and> length ls = length (get_cart st)
               \<and> map li_name ls = map item_name (get_cart st)
               \<and> map li_unit_amount ls
                   = map (\<lambda>i. trunc (float_mul (item_price i) (float_of_int 100))) (get_cart st)
               \<and> map (\<lambda>l. Some (li_quantity l)) ls = map item_quantity (get_cart st)
               \<and> (let params = \<lparr>payment_method_types = [''card''], line_items = ls,
                                  mode = ''payment'', success_url = UrlForExternal ''success'',
                                  cancel_url = UrlForExternal ''cart'',
                                  customer_email = Some u\<rparr>
                  in \<forall>url. sc params = Some url \<longrightarrow>
                       checkout sc st =
                         Inr (Redirect (Url url) 303,
                              st\<lparr>stripe_sessions := stripe_sessions st @ [params]\<rparr>))))"
proof (intro conjI impI)
  assume "get_cart st = []"
  then show "checkout sc st =
      Inr (Redirect (UrlFor ''cart'') 302, flash ''Your cart is empty!'' ''warning'' st)"
    using assms by (simp add: checkout_def login_required_def checkout_body_def)
next
  show "stripe_sessions (flash ''Your cart is empty!'' ''warning'' st) = stripe_sessions st"
    by simp
next
  assume ne: "get_cart st \<noteq> []" and q: "list_all chargeable (get_cart st)"
  from session_items_ok [OF q] obtain ls where
    s: "session_items (get_cart st) = Inr ls" and
    p: "length ls = length (get_cart st)"
       "map li_name ls = map item_name (get_cart st)"
       "map li_unit_amount ls
          = map (\<lambda>i. trunc (float_mul (item_price i) (float_of_int 100))) (get_cart st)"
       "map (\<lambda>l. Some (li_quantity l)) ls = map item_quantity (get_cart st)"
    by blast
  have "\<forall>url. sc \<lparr>payment_method_types = [''card''], line_items = ls,
                   mode = ''payment'', success_url = UrlForExternal ''success'',
                   cancel_url = UrlForExternal ''cart'', customer_email = Some u\<rparr> = Some url \<longrightarrow>
          checkout sc st =
            Inr (Redirect (Url url) 303,
                 st\<lparr>stripe_sessions := stripe_sessions st @
                    [\<lparr>payment_method_types = [''card''], line_items = ls,
                      mode = ''payment'', success_url = UrlForExternal ''success'',
                      cancel_url = UrlForExternal ''cart'', customer_email = Some u\<rparr>]\<rparr>)"
    using assms ne s by (simp add: checkout_def login_required_def checkout_body_def Let_def)
  with s p show "\<exists>ls. session_items (get_cart st) = Inr ls
               \<and> length ls = length (get_cart st)
               \<and> map li_name ls = map item_name (get_cart st)
               \<and> map li_unit_amount ls
                   = map (\<lambda>i. trunc (float_mul (item_price i) (float_of_int 100))) (get_cart st)
               \<and> map (\<lambda>l. Some (li_quantity l)) ls = map item_quantity (get_cart st)
               \<and> (let params = \<lparr>payment_method_types = [''card''], line_items = ls,
                                  mode = ''payment'', success_url = UrlForExternal ''success'',
                                  cancel_url = UrlForExternal ''cart'',
                                  customer_email = Some u\<rparr>
                  in \<forall>url. sc params = Some url \<longrightarrow>
                       checkout sc st =
                         Inr (Redirect (Url url) 303,
                              st\<lparr>stripe_sessions := stripe_sessions st @ [params]\<rparr>))"
    unfolding Let_def by blast
qed

lemma checkout_widget_gadget:
  "checkout stripe_ok st_wg =
     Inr (Redirect (Url ''https://checkout.stripe.com/c/pay/cs_test_a1'') 303,
          st_wg\<lparr>stripe_sessions :=
            [\<lparr>payment_method_types = [''card''],
              line_items =
                [\<lparr>li_currency = ''usd'', li_name = ''Widget'', li_unit_amount = 1000,
                  li_quantity = 2\<rparr>,
                 \<lparr>li_currency = ''usd'', li_name = ''Gadget'', li_unit_amount = 500,
                  li_quantity = 1\<rparr>],
              mode = ''payment'', success_url = UrlForExternal ''success'',
              cancel_url = UrlForExternal ''cart'',
              customer_email = Some ''ann@shop.com''\<rparr>]\<rparr>)"
  by (simp add: checkout_def login_required_def checkout_body_def st_wg_def get_cart_def
      widget2_def gadget1_def unit_amount_10 unit_amount_5 stripe_ok_def Let_def)

lemma add_pen:
  "add_to_cart ''Pen'' (fl (1999 / 100)) None st_empty
     = Inr (Redirect (UrlFor ''main'') 302, st_pen)"
  by (simp add: add_to_cart_def login_required_def add_to_cart_body_def st_empty_def
      st_pen_def pen_def get_cart_def set_cart_def flash_def referrer_or_main_def)

lemma checkout_pen:
  "checkout stripe_ok st_pen =
     Inr (Redirect (Url ''https://checkout.stripe.com/c/pay/cs_test_a1'') 303,
          st_pen\<lparr>stripe_sessions :=
            [\<lparr>payment_method_types = [''card''],
              line_items =
                [\<lparr>li_currency = ''usd'', li_name = ''Pen'', li_unit_amount = 1998,
                  li_quantity = 1\<rparr>],
              mode = ''payment'', success_url = UrlForExternal ''success'',
              cancel_url = UrlForExternal ''cart'',
              customer_email = Some ''ann@shop.com''\<rparr>]\<rparr>)"
  by (simp add: checkout_def login_required_def checkout_body_def st_pen_def get_cart_def
      pen_def unit_amount_pen stripe_ok_def Let_def)

text \<open>Claim C4 does not hold for the unit amount. A pen added at 19.99 costs 1999 cents,
  but \<^verbatim>\<open>int(item['price'] * 100)\<close> truncates the float product, which lies just below
  1999, and the line item sent to the provider has the unit amount 1998.\<close>

theorem checkout_truncates_cents:
  "add_to_cart ''Pen'' (fl (1999 / 100)) None st_empty
     = Inr (Redirect (UrlFor ''main'') 302, st_pen)
   \<and> checkout stripe_ok st_pen =
       Inr (Redirect (Url ''https://checkout.stripe.com/c/pay/cs_test_a1'') 303,
            st_pen\<lparr>stripe_sessions :=
              [\<lparr>payment_method_types = [''card''],
                line_items =
                  [\<lparr>li_currency = ''usd'', li_name = ''Pen'', li_unit_amount = 1998,
                    li_quantity = 1\<rparr>],
                mode = ''payment'', success_url = UrlForExternal ''success'',
                cancel_url = UrlForExternal ''cart'',
                customer_email = Some ''ann@shop.com''\<rparr>]\<rparr>)
   \<and> unit_amount (fl (1999 / 100)) = Inr 1998
   \<and> trunc (1999 / 100 * 100) = 1999"
proof (intro conjI)
  show "trunc (1999 / 100 * 100) = 1999"
    by (simp add: trunc_def)
qed (rule add_pen checkout_pen unit_amount_pen)+

lemma select_role_set_role:
  "select_role e (set_role e r d) = map_option (\<lambda>x. r) (select_role e d)"
proof -
  have "map_option u_role
          (find (\<lambda>u. u_email u = e)
             (map (\<lambda>u. if u_email u = e then u\<lparr>u_role := r\<rparr> else u) us))
        = map_option (\<lambda>x. r) (find (\<lambda>u. u_email u = e) us)" for us
    by (induction us) auto
  then show ?thesis
    by (simp add: select_role_def set_role_def option.map_comp comp_def)
qed

text \<open>Claim C7. The gate of the admin routes redirects to the login page when the session
  has no user, and to the main page when the role the database holds for the session's
  user at this request is not \<^verbatim>\<open>admin\<close> (or there is no such user); in both cases the
  wrapped handler does not run. When the role read at this request is \<^verbatim>\<open>admin\<close>, the
  result is the handler's. Nothing of the role is kept in the session: once the role in
  the database is changed to anything but \<^verbatim>\<open>admin\<close>, the next request of the same session
  is denied.\<close>

theorem admin_required_gate:
  "(sess_user (sess st) = None \<longrightarrow>
      admin_required f st =
        Inr (Redirect (UrlFor ''login'') 302, flash ''You must log in.'' ''danger'' st))
   \<and> (sess_user (sess st) = Some e \<longrightarrow> select_role e (db st) \<noteq> Some (Some ''admin'') \<longrightarrow>
      admin_required f st =
        Inr (Redirect (UrlFor ''main'') 302, flash ''Access denied. Admins only.'' ''danger'' st))
   \<and> (sess_user (sess st) = Some e \<longrightarrow> select_role e (db st) = Some (Some ''admin'') \<longrightarrow>
      admin_required f st = f st)
   \<and> (sess_user (sess st) = Some e \<longrightarrow> r \<noteq> Some ''admin'' \<longrightarrow>
      admin_required f (st\<lparr>db := set_role e r (db st)\<rparr>) =
        Inr (Redirect (UrlFor ''main'') 302,
             flash ''Access denied. Admins only.'' ''danger'' (st\<lparr>db := set_role e r (db st)\<rparr>)))"
proof (intro conjI impI)
  assume "sess_user (sess st) = None"
  then show "admin_required f st =
        Inr (Redirect (UrlFor ''login'') 302, flash ''You must log in.'' ''danger'' st)"
    by (simp add: admin_required_def)
next
  assume "sess_user (sess st) = Some e" and "select_role e (db st) \<noteq> Some (Some ''admin'')"
  then show "admin_required f st =
        Inr (Redirect (UrlFor ''main'') 302, flash ''Access denied. Admins only.'' ''danger'' st)"
    by (auto simp: admin_required_def access_denied_def split: option.splits)
next
  assume "sess_user (sess st) = Some e" and "select_role e (db st) = Some (Some ''admin'')"
  then show "admin_required f st = f st"
    by (simp add: admin_required_def)
next
  assume u: "sess_user (sess st) = Some e" and r: "r \<noteq> Some ''admin''"
  let ?st = "st\<lparr>db := set_role e r (db st)\<rparr>"
  have "select_role e (db ?st) \<noteq> Some (Some ''admin'')"
    using r by (auto simp: select_role_set_role)
  moreover have "sess_user (sess ?st) = Some e"
    using u by simp
  ultimately show "admin_required f ?st =
        Inr (Redirect (UrlFor ''main'') 302, flash ''Access denied. Admins only.'' ''danger'' ?st)"
    by (auto simp: admin_required_def access_denied_def split: option.splits)
qed

theorem admin_required_gate_witness:
  "sess_user (sess (st_user None admin_db)) = None
   \<and> admin_users (st_user None admin_db) =
        Inr (Redirect (UrlFor ''login'') 302,
             flash ''You must log in.'' ''danger'' (st_user None admin_db))
   \<and> select_role ''ann@shop.com'' admin_db = Some (Some ''user'')
   \<and> admin_users (st_user (Some ''ann@shop.com'') admin_db) =
        Inr (Redirect (UrlFor ''main'') 302,
             flash ''Access denied. Admins only.'' ''danger''
               (st_user (Some ''ann@shop.com'') admin_db))
   \<and> select_role ''admin@shop.com'' admin_db = Some (Some ''admin'')
   \<and> admin_users (st_user (Some ''admin@shop.com'') admin_db) =
        Inr (Render ''admin/users.html''
               [Users [(1, ''admin@shop.com'', Some ''admin''), (2, ''ann@shop.com'', Some ''user'')]],
             st_user (Some ''admin@shop.com'') admin_db)
   \<and> admin_users (st_user (Some ''admin@shop.com'')
                     (set_role ''admin@shop.com'' (Some ''user'') admin_db)) =
        Inr (Redirect (UrlFor ''main'') 302,
             flash ''Access denied. Admins only.'' ''danger''
               (st_user (Some ''admin@shop.com'')
                  (set_role ''admin@shop.com'' (Some ''user'') admin_db)))"
proof -
  let ?h = "\<lambda>st. Inr (Render ''admin/users.html''
                       [Users (map (\<lambda>u. (u_id u, u_email u, u_role u)) (users (db st)))], st)"
  have u0: "sess_user (sess (st_user None admin_db)) = None"
    by (simp add: st_user_def)
  have u1: "sess_user (sess (st_user (Some ''ann@shop.com'') admin_db)) = Some ''ann@shop.com''"
    by (simp add: st_user_def)
  have u2: "sess_user (sess (st_user (Some ''admin@shop.com'') admin_db)) = Some ''admin@shop.com''"
    by (simp add: st_user_def)
  have r1: "select_role ''ann@shop.com'' admin_db = Some (Some ''user'')"
    by (simp add: select_role_def admin_db_def)
  have r2: "select_role ''admin@shop.com'' admin_db = Some (Some ''admin'')"
    by (simp add: select_role_def admin_db_def)
  have d: "db (st_user u admin_db) = admin_db" for u
    by (simp add: st_user_def)
  have s: "(st_user u admin_db)\<lparr>db := x\<rparr> = st_user u x" for u x
    by (simp add: st_user_def)
  have a: "admin_users (st_user None admin_db) =
        Inr (Redirect (UrlFor ''login'') 302,
             flash ''You must log in.'' ''danger'' (st_user None admin_db))"
    using admin_required_gate [of "st_user None admin_db" ?h] u0
    by (simp add: admin_users_def)
  have b: "admin_users (st_user (Some ''ann@shop.com'') admin_db) =
        Inr (Redirect (UrlFor ''main'') 302,
             flash ''Access denied. Admins only.'' ''danger''
               (st_user (Some ''ann@shop.com'') admin_db))"
    using admin_required_gate [of "st_user (Some ''ann@shop.com'') admin_db" ?h "''ann@shop.com''"]
      u1 r1
    by (simp add: admin_users_def d)
  have c: "admin_users (st_user (Some ''admin@shop.com'') admin_db) =
        Inr (Render ''admin/users.html''
               [Users [(1, ''admin@shop.com'', Some ''admin''), (2, ''ann@shop.com'', Some ''user'')]],
             st_user (Some ''admin@shop.com'') admin_db)"
    using admin_required_gate [of "st_user (Some ''admin@shop.com'') admin_db" ?h "''admin@shop.com''"]
      u2 r2
    by (simp add: admin_users_def d) (simp add: admin_db_def)
  have e: "admin_users (st_user (Some ''admin@shop.com'')
                     (set_role ''admin@shop.com'' (Some ''user'') admin_db)) =
        Inr (Redirect (UrlFor ''main'') 302,
             flash ''Access denied. Admins only.'' ''danger''
               (st_user (Some ''admin@shop.com'')
                  (set_role ''admin@shop.com'' (Some ''user'') admin_db)))"
    using admin_required_gate [of "st_user (Some ''admin@shop.com'') admin_db" ?h
        "''admin@shop.com''" "Some ''user''"] u2
    by (simp add: admin_users_def d s)
  from u0 a r1 b r2 c e show ?thesis
    by (intro conjI)
qed

lemma strong_example: "password_is_strong ''Str0ng!pw''"
  by (simp add: password_is_strong_def in_range_def is_symbol_def)

lemma normalize_example: "lower (strip ''Bob@Shop.com'') = ''bob@shop.com''"
  by code_simp

lemma admin_route_register_first:
  "admin_route_register example_hash (POST (form_of ''bob@shop.com'' ''Str0ng!pw''))
     (st_user None empty_db)
   = Inr (Redirect (UrlFor ''login'') 302,
          flash ''Account created!'' ''success'' (st_user None bob_db))"
  by (simp add: admin_route_register_def form_of_def strong_example insert_user_def
      st_user_def empty_db_def bob_db_def next_rowid_def flash_def Let_def)

lemma admin_route_register_second:
  "admin_route_register example_hash (POST (form_of ''Bob@Shop.com'' ''Str0ng!pw''))
     (flash m k (st_user None bob_db))
   = Inr (Redirect (UrlFor ''login'') 302,
          flash ''Account created!'' ''success'' (flash m k (st_user None bob_twice_db)))"
  by (simp add: admin_route_register_def form_of_def strong_example insert_user_def
      st_user_def bob_db_def bob_twice_db_def next_rowid_def flash_def Let_def)

lemma app_register_new:
  assumes "form ''email'' = Some e" and "form ''password'' = Some pw"
      and "password_is_strong pw"
      and "lower (strip e) \<notin> set (map u_email (users (db st)))"
  shows "\<exists>d. app_register h (POST form) st =
               Inr (Redirect (UrlFor ''login'') 302,
                    flash ''Account created successfully!'' ''success'' (st\<lparr>db := d\<rparr>))
           \<and> map u_email (users d) = map u_email (users (db st)) @ [lower (strip e)]"
proof -
  let ?uid = "next_rowid (seq_users (db st)) (map u_id (users (db st)))"
  let ?d = "(db st)\<lparr>users := users (db st) @
                [\<lparr>u_id = ?uid, u_email = lower (strip e), u_password = h pw,
                  u_role = Some ''user''\<rparr>],
              seq_users := ?uid\<rparr>"
  have "app_register h (POST form) st =
          Inr (Redirect (UrlFor ''login'') 302,
               flash ''Account created successfully!'' ''success'' (st\<lparr>db := ?d\<rparr>))"
    using assms by (simp add: app_register_def insert_user_def Let_def)
  moreover have "map u_email (users ?d) = map u_email (users (db st)) @ [lower (strip e)]"
    by simp
  ultimately show ?thesis
    by (intro exI [of _ ?d] conjI)
qed

lemma app_register_duplicate:
  assumes "form ''email'' = Some e" and "form ''password'' = Some pw"
      and "password_is_strong pw"
      and "lower (strip e) \<in> set (map u_email (users (db st)))"
  shows "app_register h (POST form) st =
           Inr (Redirect (UrlFor ''register'') 302,
                flash ''Email already registered!'' ''danger'' st)"
  using assms by (simp add: app_register_def insert_user_def Let_def)

text \<open>\<^verbatim>\<open>register\<close> of \<^verbatim>\<open>app.py\<close> stores the trimmed, lower-cased email, and a second
  registration whose email normalizes to the same string is rejected with the database
  unchanged.\<close>

lemma app_register_twice:
  assumes "form1 ''email'' = Some e1" and "form1 ''password'' = Some pw1"
      and "password_is_strong pw1"
      and "lower (strip e1) \<notin> set (map u_email (users (db st)))"
      and "form2 ''email'' = Some e2" and "form2 ''password'' = Some pw2"
      and "password_is_strong pw2"
      and "lower (strip e2) = lower (strip e1)"
  shows "\<exists>st1. app_register h (POST form1) st = Inr (Redirect (UrlFor ''login'') 302, st1)
           \<and> app_register h (POST form2) st1 =
               Inr (Redirect (UrlFor ''register'') 302,
                    flash ''Email already registered!'' ''danger'' st1)
           \<and> db (flash ''Email already registered!'' ''danger'' st1) = db st1"
proof -
  from app_register_new [OF assms(1-4), of h] obtain d where
    r: "app_register h (POST form1) st =
          Inr (Redirect (UrlFor ''login'') 302,
               flash ''Account created successfully!'' ''success'' (st\<lparr>db := d\<rparr>))"
    and u: "map u_email (users d) = map u_email (users (db st)) @ [lower (strip e1)]"
    by blast
  let ?st1 = "flash ''Account created successfully!'' ''success'' (st\<lparr>db := d\<rparr>)"
  have "lower (strip e2) \<in> set (map u_email (users (db ?st1)))"
    using u assms(8) by simp
  from app_register_duplicate [OF assms(5-7) this, of h] r show ?thesis
    by simp
qed

lemma app_register_second:
  "app_register example_hash (POST (form_of ''Bob@Shop.com'' ''Str0ng!pw''))
     (flash m k (st_user None bob_db))
   = Inr (Redirect (UrlFor ''register'') 302,
          flash ''Email already registered!'' ''danger'' (flash m k (st_user None bob_db)))"
  by (rule app_register_duplicate [where e = "''Bob@Shop.com''" and pw = "''Str0ng!pw''"])
     (simp_all add: form_of_def strong_example normalize_example st_user_def bob_db_def)

text \<open>Claim C6 does not hold for \<^verbatim>\<open>register\<close> of \<^verbatim>\<open>admin_route.py\<close>, which stores the email as
  typed: after ''bob@shop.com'' is registered, registering ''Bob@Shop.com'', which
  normalizes to the same address, succeeds and leaves two user rows. \<^verbatim>\<open>register\<close> of
  \<^verbatim>\<open>app.py\<close> rejects the same request as a duplicate.\<close>

theorem admin_route_register_keeps_case:
  "admin_route_register example_hash (POST (form_of ''bob@shop.com'' ''Str0ng!pw''))
     (st_user None empty_db)
     = Inr (Redirect (UrlFor ''login'') 302,
            flash ''Account created!'' ''success'' (st_user None bob_db))
   \<and> lower (strip ''Bob@Shop.com'') = ''bob@shop.com''
   \<and> admin_route_register example_hash (POST (form_of ''Bob@Shop.com'' ''Str0ng!pw''))
       (flash ''Account created!'' ''success'' (st_user None bob_db))
     = Inr (Redirect (UrlFor ''login'') 302,
            flash ''Account created!'' ''success''
              (flash ''Account created!'' ''success'' (st_user None bob_twice_db)))
   \<and> map u_email (users bob_twice_db) = [''bob@shop.com'', ''Bob@Shop.com'']
   \<and> app_register example_hash (POST (form_of ''Bob@Shop.com'' ''Str0ng!pw''))
       (flash ''Account created!'' ''success'' (st_user None bob_db))
     = Inr (Redirect (UrlFor ''register'') 302,
            flash ''Email already registered!'' ''danger''
              (flash ''Account created!'' ''success'' (st_user None bob_db)))"
proof (intro conjI)
  show "map u_email (users bob_twice_db) = [''bob@shop.com'', ''Bob@Shop.com'']"
    by (simp add: bob_twice_db_def)
qed (rule admin_route_register_first normalize_example admin_route_register_second
      app_register_second)+

end
